theory Spec2Isabelle
  imports Complex_Main "HOL-Library.AList"
begin

section \<open>Numbers, errors and configuration\<close>

text \<open>
  The program computes with floating-point prices. They are modelled here as exact
  \<^typ>\<open>real\<close> numbers: rounding, infinities and NaN are outside the model. A division
  is the one operation of the modelled code that can fail. Following Python's
  \<^verbatim>\<open>float\<close>, the type the methods are annotated with, a zero divisor raises
  \<^verbatim>\<open>ZeroDivisionError\<close>, and that is a branch of every function below that divides.
  (The float64 scalars that the bar loop reads out of a frame give \<^verbatim>\<open>inf\<close> or \<^verbatim>\<open>nan\<close> with
  a warning instead. The two agree wherever no divisor is zero, and that is where the
  functions below return.)
\<close>

datatype py_error = ZeroDivisionError

definition fdiv :: "real \<Rightarrow> real \<Rightarrow> py_error + real" where
  "fdiv a b = (if b = 0 then Inl ZeroDivisionError else Inr (a / b))"

text \<open>\<^verbatim>\<open>config.py\<close>: the dataclass \<^verbatim>\<open>TradingConfig\<close> and its default values.\<close>

record TradingConfig =
  TIMEFRAMES :: "string list"
  SYMBOLS :: "string list"
  LIQUIDITY_THRESHOLD :: real
  ORDER_BLOCK_LOOKBACK :: int
  IMBALANCE_THRESHOLD :: real
  POSITION_SIZE :: real
  MAX_POSITIONS :: int
  STOP_LOSS_PERCENT :: real
  TAKE_PROFIT_PERCENT :: real

definition default_config :: TradingConfig where
  "default_config = \<lparr>
     TIMEFRAMES = [''1h'', ''4h'', ''1d''],
     SYMBOLS = [''BTCUSDT'', ''ETHUSDT'', ''XRPUSDT''],
     LIQUIDITY_THRESHOLD = 2 / 100,
     ORDER_BLOCK_LOOKBACK = 20,
     IMBALANCE_THRESHOLD = 15 / 1000,
     POSITION_SIZE = 1 / 100,
     MAX_POSITIONS = 3,
     STOP_LOSS_PERCENT = 2 / 100,
     TAKE_PROFIT_PERCENT = 4 / 100 \<rparr>"

section \<open>Candle series\<close>

text \<open>
  A data frame is the list of its rows, oldest first; a row carries its index entry (the
  timestamp) and the four price columns and the volume.
\<close>

type_synonym timestamp = int

record candle =
  index :: timestamp
  Open :: real
  High :: real
  Low :: real
  Close :: real
  Volume :: real

type_synonym dataframe = "candle list"

text \<open>\<^verbatim>\<open>xs.iloc[a:b]\<close> for \<open>0 \<le> a\<close>: the rows from position \<open>a\<close> up to, not including, \<open>b\<close>.\<close>

definition iloc_slice :: "'a list \<Rightarrow> nat \<Rightarrow> nat \<Rightarrow> 'a list" where
  "iloc_slice xs a b = take (b - a) (drop a xs)"

text \<open>
  A \<^verbatim>\<open>for i in range(...)\<close> loop whose body appends to a result list and may raise:
  the body gives the elements appended in iteration \<open>i\<close>, or the error.
\<close>

fun for_append :: "(nat \<Rightarrow> py_error + 'a list) \<Rightarrow> nat list \<Rightarrow> 'a list \<Rightarrow> py_error + 'a list" where
  "for_append body [] acc = Inr acc"
| "for_append body (i # is) acc =
     (case body i of
        Inl e \<Rightarrow> Inl e
      | Inr new \<Rightarrow> for_append body is (acc @ new))"

section \<open>\<^verbatim>\<open>patterns.py\<close>: SMCPatternAnalyzer\<close>

datatype level_type = resistance | support

record liquidity_level =
  level_type :: level_type
  level_price :: real
  level_timestamp :: timestamp

datatype pattern_type = bullish | bearish

text \<open>Order blocks and fair value gaps are dictionaries with the same four keys.\<close>

record pattern_hit =
  pattern_type :: pattern_type
  top_price :: real
  bottom_price :: real
  pattern_timestamp :: timestamp

definition window :: nat where
  "window = 5"

text \<open>The two conditions of \<^verbatim>\<open>identify_liquidity_levels\<close> at index \<open>i\<close>.\<close>

definition swing_high :: "dataframe \<Rightarrow> nat \<Rightarrow> bool" where
  "swing_high df i =
     (list_all (\<lambda>h. High (df ! i) > h) (map High (iloc_slice df (i - window) i)) \<and>
      list_all (\<lambda>h. High (df ! i) > h) (map High (iloc_slice df (i + 1) (i + window + 1))))"

definition swing_low :: "dataframe \<Rightarrow> nat \<Rightarrow> bool" where
  "swing_low df i =
     (list_all (\<lambda>l. Low (df ! i) < l) (map Low (iloc_slice df (i - window) i)) \<and>
      list_all (\<lambda>l. Low (df ! i) < l) (map Low (iloc_slice df (i + 1) (i + window + 1))))"

definition liquidity_levels_body :: "dataframe \<Rightarrow> nat \<Rightarrow> liquidity_level list" where
  "liquidity_levels_body df i =
     (if swing_high df i
      then [\<lparr>level_type = resistance, level_price = High (df ! i), level_timestamp = index (df ! i)\<rparr>]
      else []) @
     (if swing_low df i
      then [\<lparr>level_type = support, level_price = Low (df ! i), level_timestamp = index (df ! i)\<rparr>]
      else [])"

definition identify_liquidity_levels :: "dataframe \<Rightarrow> liquidity_level list" where
  "identify_liquidity_levels df =
     foldl (\<lambda>levels i. levels @ liquidity_levels_body df i) [] [window ..< length df - window]"

text \<open>
  \<^verbatim>\<open>identify_order_blocks\<close>. Python's \<^verbatim>\<open>and\<close> evaluates the range ratio, and so the
  division by \<^verbatim>\<open>Low[i+1]\<close>, only after both candle-direction tests have succeeded.
\<close>

definition order_block_test ::
  "TradingConfig \<Rightarrow> dataframe \<Rightarrow> nat \<Rightarrow> bool \<Rightarrow> pattern_type \<Rightarrow> py_error + pattern_hit list" where
  "order_block_test cfg df i directions ty =
     (if directions
      then (case fdiv (High (df ! (i + 1)) - Low (df ! (i + 1))) (Low (df ! (i + 1))) of
              Inl e \<Rightarrow> Inl e
            | Inr ratio \<Rightarrow>
                Inr (if ratio > LIQUIDITY_THRESHOLD cfg
                     then [\<lparr>pattern_type = ty, top_price = High (df ! i),
                            bottom_price = Low (df ! i), pattern_timestamp = index (df ! i)\<rparr>]
                     else []))
      else Inr [])"

definition order_blocks_body :: "TradingConfig \<Rightarrow> dataframe \<Rightarrow> nat \<Rightarrow> py_error + pattern_hit list" where
  "order_blocks_body cfg df i =
     (case order_block_test cfg df i
             (Close (df ! i) > Open (df ! i) \<and> Close (df ! (i + 1)) < Open (df ! (i + 1))) bullish of
        Inl e \<Rightarrow> Inl e
      | Inr bull \<Rightarrow>
          (case order_block_test cfg df i
                  (Close (df ! i) < Open (df ! i) \<and> Close (df ! (i + 1)) > Open (df ! (i + 1))) bearish of
             Inl e \<Rightarrow> Inl e
           | Inr bear \<Rightarrow> Inr (bull @ bear)))"

definition identify_order_blocks :: "TradingConfig \<Rightarrow> dataframe \<Rightarrow> py_error + pattern_hit list" where
  "identify_order_blocks cfg df = for_append (order_blocks_body cfg df) [0 ..< length df - 1] []"

text \<open>
  \<^verbatim>\<open>identify_fair_value_gaps\<close>. The gap size is computed, and its divisor read, only
  inside the outer \<^verbatim>\<open>if\<close>.
\<close>

definition fair_value_gaps_body :: "TradingConfig \<Rightarrow> dataframe \<Rightarrow> nat \<Rightarrow> py_error + pattern_hit list" where
  "fair_value_gaps_body cfg df i =
     (case (if Low (df ! (i + 1)) > High (df ! (i - 1))
            then (case fdiv (Low (df ! (i + 1)) - High (df ! (i - 1))) (High (df ! (i - 1))) of
                    Inl e \<Rightarrow> Inl e
                  | Inr gap_size \<Rightarrow>
                      Inr (if gap_size > IMBALANCE_THRESHOLD cfg
                           then [\<lparr>pattern_type = bullish, top_price = Low (df ! (i + 1)),
                                  bottom_price = High (df ! (i - 1)),
                                  pattern_timestamp = index (df ! i)\<rparr>]
                           else []))
            else Inr []) of
        Inl e \<Rightarrow> Inl e
      | Inr bull \<Rightarrow>
          (case (if High (df ! (i + 1)) < Low (df ! (i - 1))
                 then (case fdiv (Low (df ! (i - 1)) - High (df ! (i + 1))) (High (df ! (i + 1))) of
                         Inl e \<Rightarrow> Inl e
                       | Inr gap_size \<Rightarrow>
                           Inr (if gap_size > IMBALANCE_THRESHOLD cfg
                                then [\<lparr>pattern_type = bearish, top_price = Low (df ! (i - 1)),
                                       bottom_price = High (df ! (i + 1)),
                                       pattern_timestamp = index (df ! i)\<rparr>]
                                else []))
                 else Inr []) of
             Inl e \<Rightarrow> Inl e
           | Inr bear \<Rightarrow> Inr (bull @ bear)))"

definition identify_fair_value_gaps :: "TradingConfig \<Rightarrow> dataframe \<Rightarrow> py_error + pattern_hit list" where
  "identify_fair_value_gaps cfg df =
     for_append (fair_value_gaps_body cfg df) [1 ..< length df - 1] []"

record patterns =
  liquidity_levels :: "liquidity_level list"
  order_blocks :: "pattern_hit list"
  fair_value_gaps :: "pattern_hit list"

definition analyze_patterns :: "TradingConfig \<Rightarrow> dataframe \<Rightarrow> py_error + patterns" where
  "analyze_patterns cfg df =
     (let levels = identify_liquidity_levels df in
      case identify_order_blocks cfg df of
        Inl e \<Rightarrow> Inl e
      | Inr obs \<Rightarrow>
          (case identify_fair_value_gaps cfg df of
             Inl e \<Rightarrow> Inl e
           | Inr gaps \<Rightarrow>
               Inr \<lparr>liquidity_levels = levels, order_blocks = obs, fair_value_gaps = gaps\<rparr>))"

text \<open>A row written as timestamp, open, high, low, close; the detectors never read the volume.\<close>

definition ohlc :: "timestamp \<Rightarrow> real \<Rightarrow> real \<Rightarrow> real \<Rightarrow> real \<Rightarrow> candle" where
  "ohlc t opn hi lo cls = \<lparr>index = t, Open = opn, High = hi, Low = lo, Close = cls, Volume = 0\<rparr>"

section \<open>\<^verbatim>\<open>backtesting.py\<close>: Backtester\<close>

text \<open>
  The side of a position is the string \<^verbatim>\<open>'BUY'\<close> or \<^verbatim>\<open>'SELL'\<close>; the bar loop passes no
  other, and the code tests it against \<^verbatim>\<open>'BUY'\<close> only.
\<close>

datatype side = BUY | SELL

text \<open>\<^verbatim>\<open>patterns_by_timeframe\<close>: the snapshot of each timeframe, in the dictionary's order.\<close>

type_synonym pattern_info = "(string \<times> patterns) list"

record position =
  side :: side
  entry_price :: real
  stop_loss :: real
  take_profit :: real
  position_size :: real
  cost :: real
  pattern :: pattern_info
  timestamp :: timestamp

record trade =
  trade_symbol :: string
  trade_side :: side
  trade_entry_price :: real
  trade_exit_price :: real
  trade_position_size :: real
  trade_pnl :: real
  trade_pnl_percent :: real
  trade_entry_time :: timestamp
  trade_exit_time :: timestamp
  trade_reason :: string
  trade_pattern :: pattern_info

text \<open>
  The mutable attributes of a \<^verbatim>\<open>Backtester\<close>. The dictionary \<^verbatim>\<open>positions\<close> is an
  association list in insertion order: \<^const>\<open>map_of\<close> looks a symbol up,
  \<^const>\<open>AList.update\<close> assigns (in place, or at the end for a new key) and
  \<^const>\<open>AList.delete\<close> is \<^verbatim>\<open>del\<close>. The configuration is immutable and passed beside it.
\<close>

record backtester =
  initial_balance :: real
  balance :: real
  positions :: "(string \<times> position) list"
  trades_history :: "trade list"

text \<open>The state \<^verbatim>\<open>run_backtest\<close> starts from (its "Reset state" lines).\<close>

definition reset_state :: "real \<Rightarrow> backtester" where
  "reset_state initial =
     \<lparr>initial_balance = initial, balance = initial, positions = [], trades_history = []\<rparr>"

definition calculate_position_size :: "TradingConfig \<Rightarrow> backtester \<Rightarrow> real" where
  "calculate_position_size cfg s = balance s * POSITION_SIZE cfg"

definition open_position ::
  "TradingConfig \<Rightarrow> backtester \<Rightarrow> string \<Rightarrow> side \<Rightarrow> real \<Rightarrow> timestamp \<Rightarrow> pattern_info \<Rightarrow>
     py_error + backtester" where
  "open_position cfg s symbol sd price ts pattern_info =
     (if int (length (positions s)) \<ge> MAX_POSITIONS cfg then Inr s
      else
        let position_size = calculate_position_size cfg s;
            cost = position_size
        in if cost > balance s then Inr s
           else
             let stop_loss = (if sd = BUY then price * (1 - STOP_LOSS_PERCENT cfg)
                              else price * (1 + STOP_LOSS_PERCENT cfg));
                 take_profit = (if sd = BUY then price * (1 + TAKE_PROFIT_PERCENT cfg)
                                else price * (1 - TAKE_PROFIT_PERCENT cfg))
             in case fdiv position_size price of
                  Inl e \<Rightarrow> Inl e
                | Inr quantity \<Rightarrow>
                    Inr (s\<lparr>positions :=
                             AList.update symbol
                               \<lparr>side = sd, entry_price = price, stop_loss = stop_loss,
                                take_profit = take_profit, position_size = quantity,
                                cost = cost, pattern = pattern_info, timestamp = ts\<rparr>
                               (positions s),
                           balance := balance s - cost\<rparr>))"

text \<open>
  \<^verbatim>\<open>close_position\<close>. The balance is credited before \<^verbatim>\<open>pnl_percent\<close> divides by the
  position's cost; when that division raises, the call is abandoned before the trade is
  recorded and the position deleted, and the model returns the error.
\<close>

definition close_position ::
  "backtester \<Rightarrow> string \<Rightarrow> real \<Rightarrow> timestamp \<Rightarrow> string \<Rightarrow> py_error + backtester" where
  "close_position s symbol exit_price ts reason =
     (case map_of (positions s) symbol of
        None \<Rightarrow> Inr s
      | Some position \<Rightarrow>
          let pnl = (if side position = BUY
                     then (exit_price - entry_price position) * position_size position
                     else (entry_price position - exit_price) * position_size position)
          in case fdiv pnl (cost position) of
               Inl e \<Rightarrow> Inl e
             | Inr ratio \<Rightarrow>
                 Inr (s\<lparr>balance := balance s + (cost position + pnl),
                        trades_history := trades_history s @
                          [\<lparr>trade_symbol = symbol, trade_side = side position,
                            trade_entry_price = entry_price position,
                            trade_exit_price = exit_price,
                            trade_position_size = position_size position, trade_pnl = pnl,
                            trade_pnl_percent = ratio * 100,
                            trade_entry_time = timestamp position, trade_exit_time = ts,
                            trade_reason = reason, trade_pattern = pattern position\<rparr>],
                        positions := AList.delete symbol (positions s)\<rparr>))"

subsection \<open>One bar of \<^verbatim>\<open>run_backtest\<close>\<close>

text \<open>
  The vote of one pattern list: its last element, when there is one. The pair is
  \<^verbatim>\<open>(buy_signals, sell_signals)\<close>.
\<close>

definition latest_vote :: "pattern_hit list \<Rightarrow> nat \<times> nat \<Rightarrow> nat \<times> nat" where
  "latest_vote hits signals =
     (if hits \<noteq> []
      then (if pattern_type (last hits) = bullish then (fst signals + 1, snd signals)
            else if pattern_type (last hits) = bearish then (fst signals, snd signals + 1)
            else signals)
      else signals)"

fun count_signals :: "patterns list \<Rightarrow> nat \<times> nat \<Rightarrow> nat \<times> nat" where
  "count_signals [] signals = signals"
| "count_signals (timeframe_patterns # rest) signals =
     count_signals rest
       (latest_vote (fair_value_gaps timeframe_patterns)
          (latest_vote (order_blocks timeframe_patterns) signals))"

text \<open>Lines 141 to 160: exits of the symbol's position, else a new position.\<close>

definition manage_positions ::
  "TradingConfig \<Rightarrow> string \<Rightarrow> timestamp \<Rightarrow> real \<Rightarrow> pattern_info \<Rightarrow> nat \<times> nat \<Rightarrow> backtester \<Rightarrow>
     py_error + backtester" where
  "manage_positions cfg symbol current_time current_price patterns_by_timeframe signals s =
     (case map_of (positions s) symbol of
        Some pos \<Rightarrow>
          (if side pos = BUY
           then (if current_price \<le> stop_loss pos
                 then close_position s symbol current_price current_time ''Stop Loss''
                 else if current_price \<ge> take_profit pos
                 then close_position s symbol current_price current_time ''Take Profit''
                 else Inr s)
           else (if current_price \<ge> stop_loss pos
                 then close_position s symbol current_price current_time ''Stop Loss''
                 else if current_price \<le> take_profit pos
                 then close_position s symbol current_price current_time ''Take Profit''
                 else Inr s))
      | None \<Rightarrow>
          (if int (length (positions s)) < MAX_POSITIONS cfg
           then (if fst signals \<ge> 2
                 then open_position cfg s symbol BUY current_price current_time patterns_by_timeframe
                 else if snd signals \<ge> 2
                 then open_position cfg s symbol SELL current_price current_time patterns_by_timeframe
                 else Inr s)
           else Inr s))"

text \<open>
  A bar of the primary timeframe as the loop body sees it: its timestamp, its close, and
  for each timeframe of the symbol the trailing window \<^verbatim>\<open>analysis_df\<close> that the
  nearest-timestamp lookup and \<^verbatim>\<open>iloc\<close> cut out of that timeframe's frame. The body
  analyses every window, counts the votes and manages the positions; the equity snapshot
  it then appends to \<^verbatim>\<open>balance_history\<close> only reads the state and is left out.
\<close>

record bar =
  bar_time :: timestamp
  bar_close :: real
  analysis_dfs :: "(string \<times> dataframe) list"

fun analyze_timeframes :: "TradingConfig \<Rightarrow> (string \<times> dataframe) list \<Rightarrow> py_error + pattern_info" where
  "analyze_timeframes cfg [] = Inr []"
| "analyze_timeframes cfg ((timeframe, analysis_df) # rest) =
     (case analyze_patterns cfg analysis_df of
        Inl e \<Rightarrow> Inl e
      | Inr ps \<Rightarrow>
          (case analyze_timeframes cfg rest of
             Inl e \<Rightarrow> Inl e
           | Inr pbt \<Rightarrow> Inr ((timeframe, ps) # pbt)))"

definition process_bar :: "TradingConfig \<Rightarrow> string \<Rightarrow> bar \<Rightarrow> backtester \<Rightarrow> py_error + backtester" where
  "process_bar cfg symbol b s =
     (case analyze_timeframes cfg (analysis_dfs b) of
        Inl e \<Rightarrow> Inl e
      | Inr patterns_by_timeframe \<Rightarrow>
          manage_positions cfg symbol (bar_time b) (bar_close b) patterns_by_timeframe
            (count_signals (map snd patterns_by_timeframe) (0, 0)) s)"

text \<open>
  The two nested loops (\<^verbatim>\<open>for symbol in SYMBOLS\<close>, \<^verbatim>\<open>for i in range(len(...))\<close>) visit a
  sequence of (symbol, bar) pairs; an exception in one bar ends the run.
\<close>

fun run_bars :: "TradingConfig \<Rightarrow> (string \<times> bar) list \<Rightarrow> backtester \<Rightarrow> py_error + backtester" where
  "run_bars cfg [] s = Inr s"
| "run_bars cfg ((symbol, b) # rest) s =
     (case process_bar cfg symbol b s of
        Inl e \<Rightarrow> Inl e
      | Inr s' \<Rightarrow> run_bars cfg rest s')"

text \<open>
  Every change of \<^verbatim>\<open>positions\<close> and \<^verbatim>\<open>balance\<close> during a run is a call of
  \<^verbatim>\<open>open_position\<close> or \<^verbatim>\<open>close_position\<close> (from the bar loop, or from the loop that
  closes what is still open at the end). A run is therefore a sequence of such calls; an
  exception ends it.
\<close>

datatype operation =
  Open_call string side real timestamp pattern_info
| Close_call string real timestamp string

fun apply_operation :: "TradingConfig \<Rightarrow> operation \<Rightarrow> backtester \<Rightarrow> py_error + backtester" where
  "apply_operation cfg (Open_call symbol sd price ts pattern_info) s =
     open_position cfg s symbol sd price ts pattern_info"
| "apply_operation cfg (Close_call symbol exit_price ts reason) s =
     close_position s symbol exit_price ts reason"

fun run_operations :: "TradingConfig \<Rightarrow> operation list \<Rightarrow> backtester \<Rightarrow> py_error + backtester" where
  "run_operations cfg [] s = Inr s"
| "run_operations cfg (operation # rest) s =
     (case apply_operation cfg operation s of
        Inl e \<Rightarrow> Inl e
      | Inr s' \<Rightarrow> run_operations cfg rest s')"

subsection \<open>\<^verbatim>\<open>calculate_metrics\<close>\<close>

fun balance_curve :: "trade list \<Rightarrow> real \<Rightarrow> real list" where
  "balance_curve [] current_balance = []"
| "balance_curve (t # ts) current_balance =
     (current_balance + trade_pnl t) # balance_curve ts (current_balance + trade_pnl t)"

fun drawdown_loop :: "real list \<Rightarrow> real \<Rightarrow> real \<Rightarrow> py_error + real" where
  "drawdown_loop [] peak_balance max_drawdown = Inr max_drawdown"
| "drawdown_loop (b # bs) peak_balance max_drawdown =
     (let peak_balance = (if b > peak_balance then b else peak_balance)
      in case fdiv (peak_balance - b) peak_balance of
           Inl e \<Rightarrow> Inl e
         | Inr drawdown \<Rightarrow> drawdown_loop bs peak_balance (max max_drawdown drawdown))"

text \<open>\<^verbatim>\<open>profit_factor\<close> is a number or \<^verbatim>\<open>float('inf')\<close>.\<close>

datatype profit_factor = Finite real | Infinity

record metrics =
  total_trades :: nat
  profitable_trades :: nat
  win_rate :: real
  total_pnl :: real
  total_return :: real
  average_pnl :: real
  max_drawdown :: real
  final_balance :: real
  profit_factor :: profit_factor

definition calculate_metrics :: "backtester \<Rightarrow> py_error + metrics" where
  "calculate_metrics s =
     (if trades_history s = []
      then Inr \<lparr>total_trades = 0, profitable_trades = 0, win_rate = 0, total_pnl = 0,
                total_return = 0, average_pnl = 0, max_drawdown = 0,
                final_balance = balance s, profit_factor = Finite 0\<rparr>
      else
        let total_trades = length (trades_history s);
            profitable_trades = length (filter (\<lambda>t. trade_pnl t > 0) (trades_history s));
            win_rate = (if total_trades > 0 then real profitable_trades / real total_trades else 0);
            pnl_list = map trade_pnl (trades_history s);
            total_pnl = sum_list pnl_list;
            avg_pnl = (if pnl_list \<noteq> [] then total_pnl / real (length pnl_list) else 0)
        in case drawdown_loop (balance_curve (trades_history s) (initial_balance s))
                  (initial_balance s) 0 of
             Inl e \<Rightarrow> Inl e
           | Inr max_dd \<Rightarrow>
               let winning_trades = filter (\<lambda>p. p > 0) pnl_list;
                   losing_trades = map abs (filter (\<lambda>p. p < 0) pnl_list);
                   profit_factor = (if sum_list losing_trades > 0
                                    then Finite (sum_list winning_trades / sum_list losing_trades)
                                    else Infinity)
               in case fdiv total_pnl (initial_balance s) of
                    Inl e \<Rightarrow> Inl e
                  | Inr r \<Rightarrow>
                      Inr \<lparr>total_trades = total_trades, profitable_trades = profitable_trades,
                           win_rate = win_rate, total_pnl = total_pnl, total_return = r * 100,
                           average_pnl = avg_pnl, max_drawdown = max_dd * 100,
                           final_balance = balance s, profit_factor = profit_factor\<rparr>)"

section \<open>The specification's wording\<close>






definition opened_position ::
  "TradingConfig \<Rightarrow> real \<Rightarrow> side \<Rightarrow> real \<Rightarrow> timestamp \<Rightarrow> pattern_info \<Rightarrow> position" where
  "opened_position cfg cash sd entry ts info =
     \<lparr>side = sd, entry_price = entry,
      stop_loss = (case sd of BUY \<Rightarrow> entry * (1 - STOP_LOSS_PERCENT cfg)
                            | SELL \<Rightarrow> entry * (1 + STOP_LOSS_PERCENT cfg)),
      take_profit = (case sd of BUY \<Rightarrow> entry * (1 + TAKE_PROFIT_PERCENT cfg)
                              | SELL \<Rightarrow> entry * (1 - TAKE_PROFIT_PERCENT cfg)),
      position_size = (cash * POSITION_SIZE cfg) / entry,
      cost = cash * POSITION_SIZE cfg,
      pattern = info, timestamp = ts\<rparr>"


section \<open>Sample series\<close>

text \<open>
  Small candle series on which the detectors are evaluated: a single swing high in eleven
  candles, a bullish candle followed by a wide bearish one, the same with the second
  candle's relative range exactly at the default threshold, an upward gap, and two series
  in which a divisor is zero.
\<close>

definition single_peak_series :: dataframe where
  "single_peak_series =
     [ohlc 0 1 5 1 1, ohlc 1 1 5 1 1, ohlc 2 1 5 1 1, ohlc 3 1 5 1 1, ohlc 4 1 5 1 1,
      ohlc 5 1 10 1 1,
      ohlc 6 1 5 1 1, ohlc 7 1 5 1 1, ohlc 8 1 5 1 1, ohlc 9 1 5 1 1, ohlc 10 1 5 1 1]"






text \<open>
  A sample run on one symbol with two timeframes whose frames coincide. Candle 0 is
  bearish and candle 1 bullish with a wide range (a bearish order block, one sell vote
  per timeframe); candle 2 closes at 200; candle 3 is flat. At bar \<open>i\<close> each timeframe's
  trailing window is the first \<open>i + 1\<close> candles.
\<close>

definition spike_series :: dataframe where
  "spike_series =
     [ohlc 0 2 2 1 1, ohlc 1 (1 / 2) 1 (1 / 2) 1, ohlc 2 1 200 1 200, ohlc 3 200 200 1 200]"

definition spike_bar :: "nat \<Rightarrow> bar" where
  "spike_bar i =
     \<lparr>bar_time = index (spike_series ! i), bar_close = Close (spike_series ! i),
      analysis_dfs = [(''1h'', take (i + 1) spike_series), (''4h'', take (i + 1) spike_series)]\<rparr>"

definition spike_info :: pattern_info where
  "spike_info =
     [(''1h'', \<lparr>liquidity_levels = [],
               order_blocks = [\<lparr>pattern_type = bearish, top_price = 2, bottom_price = 1,
                                pattern_timestamp = 0\<rparr>],
               fair_value_gaps = []\<rparr>),
      (''4h'', \<lparr>liquidity_levels = [],
               order_blocks = [\<lparr>pattern_type = bearish, top_price = 2, bottom_price = 1,
                                pattern_timestamp = 0\<rparr>],
               fair_value_gaps = []\<rparr>)]"

text \<open>
  States of that run: a long position opened at 100 with 10000 in cash, the short
  position that bar 1 opens, and the state after bar 2 has closed it at 200.
\<close>

definition long_state :: backtester where
  "long_state =
     \<lparr>initial_balance = 10000, balance = 9900,
      positions = [(''BTCUSDT'', opened_position default_config 10000 BUY 100 1 [])],
      trades_history = []\<rparr>"

definition short_state :: backtester where
  "short_state =
     \<lparr>initial_balance = 10000, balance = 9900,
      positions = [(''BTCUSDT'', opened_position default_config 10000 SELL 1 1 spike_info)],
      trades_history = []\<rparr>"

definition after_spike :: backtester where
  "after_spike =
     \<lparr>initial_balance = 10000, balance = - 9900, positions = [],
      trades_history =
        [\<lparr>trade_symbol = ''BTCUSDT'', trade_side = SELL, trade_entry_price = 1,
          trade_exit_price = 200, trade_position_size = 100, trade_pnl = - 19900,
          trade_pnl_percent = - 19900, trade_entry_time = 1, trade_exit_time = 2,
          trade_reason = ''Stop Loss'', trade_pattern = spike_info\<rparr>]\<rparr>"


section \<open>Properties of the pattern detectors\<close>

subsection \<open>Loops and slices\<close>




lemma foldl_append_concat:
  "foldl (\<lambda>acc i. acc @ f i) a xs = a @ concat (map f xs)"
  by (induction xs arbitrary: a) auto

lemma set_iloc_slice:
  assumes "b \<le> length xs"
  shows "set (iloc_slice xs a b) = {xs ! j | j. a \<le> j \<and> j < b}"
proof (intro set_eqI iffI)
  fix x assume "x \<in> set (iloc_slice xs a b)"
  then obtain k where k: "k < length (take (b - a) (drop a xs))" "x = take (b - a) (drop a xs) ! k"
    unfolding iloc_slice_def in_set_conv_nth by blast
  from k(1) assms have "k < b - a" by simp
  with k(2) assms have "x = xs ! (a + k)" by simp
  with \<open>k < b - a\<close> show "x \<in> {xs ! j | j. a \<le> j \<and> j < b}"
    by (intro CollectI exI[of _ "a + k"]) auto
next
  fix x assume "x \<in> {xs ! j | j. a \<le> j \<and> j < b}"
  then obtain j where j: "x = xs ! j" "a \<le> j" "j < b" by blast
  with assms have "j - a < length (take (b - a) (drop a xs))" by simp
  moreover from j assms have "take (b - a) (drop a xs) ! (j - a) = x" by simp
  ultimately show "x \<in> set (iloc_slice xs a b)"
    unfolding iloc_slice_def in_set_conv_nth by blast
qed

lemma list_all_slice:
  "b \<le> length xs \<Longrightarrow>
   list_all P (map f (iloc_slice xs a b)) = (\<forall>j. a \<le> j \<and> j < b \<longrightarrow> P (f (xs ! j)))"
  by (auto simp: list_all_iff set_iloc_slice)

subsection \<open>Liquidity levels\<close>

lemma identify_liquidity_levels_concat:
  "identify_liquidity_levels df =
     concat (map (liquidity_levels_body df) [window ..< length df - window])"
  by (simp add: identify_liquidity_levels_def foldl_append_concat)

lemma swing_high_iff:
  assumes "window \<le> i" "i < length df - window"
  shows "swing_high df i =
     (\<forall>j. (i - window \<le> j \<and> j < i) \<or> (i < j \<and> j \<le> i + window) \<longrightarrow> High (df ! j) < High (df ! i))"
proof -
  have 1: "i \<le> length df" "i + window + 1 \<le> length df" using assms by auto
  show ?thesis
    unfolding swing_high_def list_all_slice[OF 1(1)] list_all_slice[OF 1(2)]
    by (auto simp: less_eq_Suc_le)
qed

lemma swing_low_iff:
  assumes "window \<le> i" "i < length df - window"
  shows "swing_low df i =
     (\<forall>j. (i - window \<le> j \<and> j < i) \<or> (i < j \<and> j \<le> i + window) \<longrightarrow> Low (df ! i) < Low (df ! j))"
proof -
  have 1: "i \<le> length df" "i + window + 1 \<le> length df" using assms by auto
  show ?thesis
    unfolding swing_low_def list_all_slice[OF 1(1)] list_all_slice[OF 1(2)]
    by (auto simp: less_eq_Suc_le)
qed

lemma liquidity_levels_short:
  "length df < 2 * window + 1 \<Longrightarrow> identify_liquidity_levels df = []"
  by (simp add: identify_liquidity_levels_concat window_def)

lemma liquidity_levels_member:
  "lv \<in> set (identify_liquidity_levels df) \<longleftrightarrow>
     (\<exists>i. window \<le> i \<and> i < length df - window \<and> level_timestamp lv = index (df ! i) \<and>
        ((level_type lv = resistance \<and> level_price lv = High (df ! i) \<and> swing_high df i) \<or>
         (level_type lv = support \<and> level_price lv = Low (df ! i) \<and> swing_low df i)))"
  unfolding identify_liquidity_levels_concat liquidity_levels_body_def
  by (cases lv) (fastforce split: if_splits)

lemma liquidity_levels_single_peak:
  assumes "length df = 11" "\<forall>j<11. j \<noteq> 5 \<longrightarrow> High (df ! j) < High (df ! 5)"
  shows "filter (\<lambda>l. level_type l = resistance) (identify_liquidity_levels df) =
           [\<lparr>level_type = resistance, level_price = High (df ! 5), level_timestamp = index (df ! 5)\<rparr>]"
proof -
  have "swing_high df 5"
    using assms by (subst swing_high_iff) (auto simp: window_def)
  moreover have "[window ..< length df - window] = [5]"
    using assms by (simp add: window_def upt_rec)
  ultimately show ?thesis
    by (simp add: identify_liquidity_levels_concat liquidity_levels_body_def)
qed

subsection \<open>Order blocks and fair value gaps against the specification's wording\<close>













subsection \<open>Where the detectors return\<close>





subsection \<open>The claims about the detectors\<close>

text \<open>
  Claim C8. With \<open>window = 5\<close>, \<^const>\<open>identify_liquidity_levels\<close> emits a level exactly for
  the indices \<open>i\<close> with \<open>window \<le> i < len - window\<close>: a resistance level (price \<open>High[i]\<close>,
  timestamp of candle \<open>i\<close>) iff \<open>High[i]\<close> is strictly greater than the highs of the
  \<open>window\<close> candles before and the \<open>window\<close> candles after \<open>i\<close>, a support level iff
  \<open>Low[i]\<close> is strictly smaller than those lows. A series shorter than \<open>2 * window + 1\<close>
  gives the empty list, and an 11-candle series whose high at index 5 is strictly above
  every other high gives exactly one resistance level, that of index 5.
\<close>

theorem liquidity_levels_correct:
  "(lv \<in> set (identify_liquidity_levels df) \<longleftrightarrow>
      (\<exists>i. window \<le> i \<and> i < length df - window \<and> level_timestamp lv = index (df ! i) \<and>
         ((level_type lv = resistance \<and> level_price lv = High (df ! i) \<and>
             (\<forall>j. (i - window \<le> j \<and> j < i) \<or> (i < j \<and> j \<le> i + window)
                   \<longrightarrow> High (df ! j) < High (df ! i))) \<or>
          (level_type lv = support \<and> level_price lv = Low (df ! i) \<and>
             (\<forall>j. (i - window \<le> j \<and> j < i) \<or> (i < j \<and> j \<le> i + window)
                   \<longrightarrow> Low (df ! i) < Low (df ! j)))))) \<and>
   (length df < 2 * window + 1 \<longrightarrow> identify_liquidity_levels df = []) \<and>
   (length df = 11 \<and> (\<forall>j<11. j \<noteq> 5 \<longrightarrow> High (df ! j) < High (df ! 5)) \<longrightarrow>
      filter (\<lambda>l. level_type l = resistance) (identify_liquidity_levels df) =
        [\<lparr>level_type = resistance, level_price = High (df ! 5), level_timestamp = index (df ! 5)\<rparr>])"
proof (intro conjI impI)
  show "lv \<in> set (identify_liquidity_levels df) \<longleftrightarrow>
      (\<exists>i. window \<le> i \<and> i < length df - window \<and> level_timestamp lv = index (df ! i) \<and>
         ((level_type lv = resistance \<and> level_price lv = High (df ! i) \<and>
             (\<forall>j. (i - window \<le> j \<and> j < i) \<or> (i < j \<and> j \<le> i + window)
                   \<longrightarrow> High (df ! j) < High (df ! i))) \<or>
          (level_type lv = support \<and> level_price lv = Low (df ! i) \<and>
             (\<forall>j. (i - window \<le> j \<and> j < i) \<or> (i < j \<and> j \<le> i + window)
                   \<longrightarrow> Low (df ! i) < Low (df ! j)))))"
    unfolding liquidity_levels_member
    using swing_high_iff[of _ df] swing_low_iff[of _ df] by blast
next
  assume "length df < 2 * window + 1"
  then show "identify_liquidity_levels df = []" by (rule liquidity_levels_short)
next
  assume "length df = 11 \<and> (\<forall>j<11. j \<noteq> 5 \<longrightarrow> High (df ! j) < High (df ! 5))"
  then show "filter (\<lambda>l. level_type l = resistance) (identify_liquidity_levels df) =
        [\<lparr>level_type = resistance, level_price = High (df ! 5), level_timestamp = index (df ! 5)\<rparr>]"
    using liquidity_levels_single_peak by blast
qed

lemma single_peak_series_peak:
  "\<forall>j<11. j \<noteq> 5 \<longrightarrow> High (single_peak_series ! j) < High (single_peak_series ! 5)"
proof (intro allI impI)
  fix j :: nat assume "j < 11" "j \<noteq> 5"
  then have "j \<in> {0, 1, 2, 3, 4, 6, 7, 8, 9, 10}" by simp arith
  then show "High (single_peak_series ! j) < High (single_peak_series ! 5)"
    by (auto simp: single_peak_series_def ohlc_def)
qed

theorem liquidity_levels_correct_witness:
  "identify_liquidity_levels (take 10 single_peak_series) = [] \<and>
   filter (\<lambda>l. level_type l = resistance) (identify_liquidity_levels single_peak_series) =
     [\<lparr>level_type = resistance, level_price = 10, level_timestamp = 5\<rparr>]"
proof -
  have len: "length single_peak_series = 11" by (simp add: single_peak_series_def)
  have short: "length (take 10 single_peak_series) < 2 * window + 1"
    by (simp add: single_peak_series_def window_def)
  have at5: "High (single_peak_series ! 5) = 10" "index (single_peak_series ! 5) = 5"
    by (simp_all add: single_peak_series_def ohlc_def)
  from liquidity_levels_correct[of undefined "take 10 single_peak_series"] short
  have "identify_liquidity_levels (take 10 single_peak_series) = []" by blast
  moreover from liquidity_levels_correct[of undefined single_peak_series] len single_peak_series_peak
  have "filter (\<lambda>l. level_type l = resistance) (identify_liquidity_levels single_peak_series) =
     [\<lparr>level_type = resistance, level_price = High (single_peak_series ! 5),
       level_timestamp = index (single_peak_series ! 5)\<rparr>]" by blast
  ultimately show ?thesis by (simp add: at5)
qed






section \<open>Properties of the backtester\<close>

subsection \<open>Opening and closing, case by case\<close>

lemma open_position_cases:
  "open_position cfg s symbol sd price ts info =
     (if MAX_POSITIONS cfg \<le> int (length (positions s)) \<or> balance s < balance s * POSITION_SIZE cfg
      then Inr s
      else if price = 0 then Inl ZeroDivisionError
      else Inr (s\<lparr>positions := AList.update symbol
                                 (opened_position cfg (balance s) sd price ts info) (positions s),
                  balance := balance s - balance s * POSITION_SIZE cfg\<rparr>))"
  by (cases sd)
    (simp_all add: open_position_def calculate_position_size_def fdiv_def opened_position_def Let_def)


lemma close_position_cases:
  "close_position s symbol exit_price ts reason =
     (case map_of (positions s) symbol of
        None \<Rightarrow> Inr s
      | Some pos \<Rightarrow>
          if cost pos = 0 then Inl ZeroDivisionError
          else Inr (s\<lparr>balance := balance s + (cost pos +
                         (case side pos of
                            BUY \<Rightarrow> (exit_price - entry_price pos) * position_size pos
                          | SELL \<Rightarrow> (entry_price pos - exit_price) * position_size pos)),
                      trades_history := trades_history s @
                        [\<lparr>trade_symbol = symbol, trade_side = side pos,
                          trade_entry_price = entry_price pos, trade_exit_price = exit_price,
                          trade_position_size = position_size pos,
                          trade_pnl = (case side pos of
                            BUY \<Rightarrow> (exit_price - entry_price pos) * position_size pos
                          | SELL \<Rightarrow> (entry_price pos - exit_price) * position_size pos),
                          trade_pnl_percent =
                            (case side pos of
                               BUY \<Rightarrow> (exit_price - entry_price pos) * position_size pos
                             | SELL \<Rightarrow> (entry_price pos - exit_price) * position_size pos)
                            / cost pos * 100,
                          trade_entry_time = timestamp pos, trade_exit_time = ts,
                          trade_reason = reason, trade_pattern = pattern pos\<rparr>],
                      positions := AList.delete symbol (positions s)\<rparr>))"
  by (auto simp: close_position_def fdiv_def Let_def split: option.splits side.splits)

lemma length_update_le: "length (AList.update k v al) \<le> Suc (length al)"
  by (induct al) auto


subsection \<open>Invariants of the position table\<close>

lemma open_position_bounded:
  assumes "int (length (positions s)) \<le> MAX_POSITIONS cfg"
    and "open_position cfg s symbol sd price ts info = Inr s'"
  shows "int (length (positions s')) \<le> MAX_POSITIONS cfg"
  using assms length_update_le[of symbol "opened_position cfg (balance s) sd price ts info" "positions s"]
  by (auto simp: open_position_cases split: if_splits)

lemma open_position_distinct:
  assumes "distinct (map fst (positions s))"
    and "open_position cfg s symbol sd price ts info = Inr s'"
  shows "distinct (map fst (positions s'))"
  using assms by (auto simp: open_position_cases distinct_update split: if_splits)


lemma close_position_bounded:
  assumes "int (length (positions s)) \<le> MAX_POSITIONS cfg"
    and "close_position s symbol exit_price ts reason = Inr s'"
  shows "int (length (positions s')) \<le> MAX_POSITIONS cfg"
  using assms length_delete_le[of symbol "positions s"]
  by (auto simp: close_position_cases split: option.splits if_splits)

lemma close_position_distinct:
  assumes "distinct (map fst (positions s))"
    and "close_position s symbol exit_price ts reason = Inr s'"
  shows "distinct (map fst (positions s'))"
  using assms by (auto simp: close_position_cases distinct_delete split: option.splits if_splits)


lemma run_operations_bounded:
  "int (length (positions s)) \<le> MAX_POSITIONS cfg \<Longrightarrow> run_operations cfg ops s = Inr s' \<Longrightarrow>
   int (length (positions s')) \<le> MAX_POSITIONS cfg"
proof (induction ops arbitrary: s)
  case Nil
  then show ?case by simp
next
  case (Cons operation rest)
  from Cons.prems(2) obtain s1 where s1: "apply_operation cfg operation s = Inr s1"
    and rest: "run_operations cfg rest s1 = Inr s'"
    by (auto split: sum.splits)
  from s1 Cons.prems(1) have "int (length (positions s1)) \<le> MAX_POSITIONS cfg"
    by (cases operation) (auto dest: open_position_bounded close_position_bounded)
  with rest show ?case by (rule Cons.IH[rotated])
qed

lemma run_operations_distinct:
  "distinct (map fst (positions s)) \<Longrightarrow> run_operations cfg ops s = Inr s' \<Longrightarrow>
   distinct (map fst (positions s'))"
proof (induction ops arbitrary: s)
  case Nil
  then show ?case by simp
next
  case (Cons operation rest)
  from Cons.prems(2) obtain s1 where s1: "apply_operation cfg operation s = Inr s1"
    and rest: "run_operations cfg rest s1 = Inr s'"
    by (auto split: sum.splits)
  from s1 Cons.prems(1) have "distinct (map fst (positions s1))"
    by (cases operation) (auto dest: open_position_distinct close_position_distinct)
  with rest show ?case by (rule Cons.IH[rotated])
qed


lemma distinct_keys_filter:
  "distinct (map fst al) \<Longrightarrow> length (filter (\<lambda>p. fst p = k) al) \<le> 1"
proof (induction al)
  case Nil
  then show ?case by simp
next
  case (Cons p al)
  show ?case
  proof (cases "fst p = k")
    case True
    with Cons.prems have "k \<notin> fst ` set al" by auto
    then have "filter (\<lambda>p. fst p = k) al = []" by (auto simp: filter_empty_conv)
    with True show ?thesis by simp
  next
    case False
    with Cons show ?thesis by simp
  qed
qed

subsection \<open>The bar loop makes only these calls\<close>

lemma manage_positions_calls:
  "manage_positions cfg symbol t price info signals s = Inr s' \<Longrightarrow>
     s' = s \<or>
     (\<exists>reason. map_of (positions s) symbol \<noteq> None \<and> close_position s symbol price t reason = Inr s') \<or>
     (\<exists>sd. map_of (positions s) symbol = None \<and> open_position cfg s symbol sd price t info = Inr s')"
  unfolding manage_positions_def
  by (auto split: option.splits if_splits)

lemma process_bar_calls:
  assumes "process_bar cfg symbol b s = Inr s'"
  shows "s' = s \<or>
     (\<exists>reason. map_of (positions s) symbol \<noteq> None \<and>
        close_position s symbol (bar_close b) (bar_time b) reason = Inr s') \<or>
     (\<exists>sd info. map_of (positions s) symbol = None \<and>
        open_position cfg s symbol sd (bar_close b) (bar_time b) info = Inr s')"
proof -
  from assms obtain info where
    "manage_positions cfg symbol (bar_time b) (bar_close b) info
       (count_signals (map snd info) (0, 0)) s = Inr s'"
    by (auto simp: process_bar_def split: sum.splits)
  from manage_positions_calls[OF this] show ?thesis by blast
qed

lemma process_bar_operation:
  assumes "process_bar cfg symbol b s = Inr s'"
  shows "\<exists>ops. length ops \<le> 1 \<and> run_operations cfg ops s = Inr s'"
proof -
  from process_bar_calls[OF assms] consider "s' = s"
    | reason where "close_position s symbol (bar_close b) (bar_time b) reason = Inr s'"
    | sd info where "open_position cfg s symbol sd (bar_close b) (bar_time b) info = Inr s'"
    by blast
  then show ?thesis
  proof cases
    case 1
    then have "run_operations cfg [] s = Inr s'" by simp
    then show ?thesis by (intro exI[of _ "[]"]) simp
  next
    case 2
    then have "run_operations cfg [Close_call symbol (bar_close b) (bar_time b) reason] s = Inr s'"
      by simp
    then show ?thesis by (intro exI[of _ "[Close_call symbol (bar_close b) (bar_time b) reason]"]) simp
  next
    case 3
    then have "run_operations cfg [Open_call symbol sd (bar_close b) (bar_time b) info] s = Inr s'"
      by simp
    then show ?thesis by (intro exI[of _ "[Open_call symbol sd (bar_close b) (bar_time b) info]"]) simp
  qed
qed

lemma run_operations_append:
  "run_operations cfg ops s = Inr s1 \<Longrightarrow> run_operations cfg ops' s1 = Inr s2 \<Longrightarrow>
   run_operations cfg (ops @ ops') s = Inr s2"
  by (induction ops arbitrary: s) (auto split: sum.splits)

lemma run_bars_operations:
  "run_bars cfg bars s = Inr s' \<Longrightarrow> \<exists>ops. run_operations cfg ops s = Inr s'"
proof (induction bars arbitrary: s)
  case Nil
  then have "run_operations cfg [] s = Inr s'" by simp
  then show ?case by blast
next
  case (Cons sb rest)
  obtain symbol b where sb: "sb = (symbol, b)" by (cases sb)
  from Cons.prems sb obtain s1 where s1: "process_bar cfg symbol b s = Inr s1"
    and rest: "run_bars cfg rest s1 = Inr s'"
    by (auto split: sum.splits)
  from process_bar_operation[OF s1] obtain ops1 where "run_operations cfg ops1 s = Inr s1" by blast
  moreover from Cons.IH[OF rest] obtain ops2 where "run_operations cfg ops2 s1 = Inr s'" by blast
  ultimately have "run_operations cfg (ops1 @ ops2) s = Inr s'" by (rule run_operations_append)
  then show ?case by blast
qed

subsection \<open>Votes and per-timeframe analysis\<close>




subsection \<open>The sample run, evaluated\<close>

lemma spike_run_short:
  "run_bars default_config [(''BTCUSDT'', spike_bar 0), (''BTCUSDT'', spike_bar 1)]
     (reset_state 10000) = Inr short_state"
  by code_simp







lemma spike_calls:
  "run_operations default_config
     [Open_call ''BTCUSDT'' SELL 1 1 spike_info, Close_call ''BTCUSDT'' 200 2 ''Stop Loss'',
      Open_call ''BTCUSDT'' SELL 200 3 spike_info]
     (reset_state 10000) = Inr after_spike"
  by code_simp

subsection \<open>The claims about positions and cash\<close>








text \<open>
  Claim C5. With a non-negative \<open>MAX_POSITIONS\<close>, after every sequence of
  \<^const>\<open>open_position\<close> and \<^const>\<open>close_position\<close> calls from the reset state, and so after
  every bar of a run, at most \<open>MAX_POSITIONS\<close> positions are open and every symbol has at
  most one entry in the position table.
\<close>

theorem positions_bounded_and_unique:
  assumes "0 \<le> MAX_POSITIONS cfg"
  shows "(run_operations cfg ops (reset_state initial) = Inr s \<longrightarrow>
            int (length (positions s)) \<le> MAX_POSITIONS cfg \<and>
            distinct (map fst (positions s)) \<and>
            (\<forall>symbol. length (filter (\<lambda>p. fst p = symbol) (positions s)) \<le> 1)) \<and>
         (run_bars cfg bars (reset_state initial) = Inr s' \<longrightarrow>
            int (length (positions s')) \<le> MAX_POSITIONS cfg \<and>
            distinct (map fst (positions s')) \<and>
            (\<forall>symbol. length (filter (\<lambda>p. fst p = symbol) (positions s')) \<le> 1))"
proof -
  have init: "int (length (positions (reset_state initial))) \<le> MAX_POSITIONS cfg"
    "distinct (map fst (positions (reset_state initial)))"
    using assms by (simp_all add: reset_state_def)
  have *: "int (length (positions t)) \<le> MAX_POSITIONS cfg \<and> distinct (map fst (positions t)) \<and>
            (\<forall>symbol. length (filter (\<lambda>p. fst p = symbol) (positions t)) \<le> 1)"
    if "run_operations cfg ops' (reset_state initial) = Inr t" for ops' t
  proof -
    note b = run_operations_bounded[OF init(1) that]
    note d = run_operations_distinct[OF init(2) that]
    from d have "\<forall>symbol. length (filter (\<lambda>p. fst p = symbol) (positions t)) \<le> 1"
      by (intro allI distinct_keys_filter)
    with b d show ?thesis by blast
  qed
  show ?thesis
  proof (intro conjI impI)
    assume "run_operations cfg ops (reset_state initial) = Inr s"
    from *[OF this] show "int (length (positions s)) \<le> MAX_POSITIONS cfg"
      "distinct (map fst (positions s))"
      "\<forall>symbol. length (filter (\<lambda>p. fst p = symbol) (positions s)) \<le> 1" by blast+
  next
    assume "run_bars cfg bars (reset_state initial) = Inr s'"
    then obtain ops' where "run_operations cfg ops' (reset_state initial) = Inr s'"
      using run_bars_operations by blast
    from *[OF this] show "int (length (positions s')) \<le> MAX_POSITIONS cfg"
      "distinct (map fst (positions s'))"
      "\<forall>symbol. length (filter (\<lambda>p. fst p = symbol) (positions s')) \<le> 1" by blast+
  qed
qed

theorem positions_bounded_and_unique_witness:
  "run_bars default_config
     [(''BTCUSDT'', spike_bar 0), (''BTCUSDT'', spike_bar 1)] (reset_state 10000) = Inr short_state \<and>
   int (length (positions short_state)) \<le> MAX_POSITIONS default_config \<and>
   distinct (map fst (positions short_state)) \<and>
   run_operations default_config
     [Open_call ''BTCUSDT'' SELL 1 1 spike_info, Close_call ''BTCUSDT'' 200 2 ''Stop Loss'',
      Open_call ''BTCUSDT'' SELL 200 3 spike_info]
     (reset_state 10000) = Inr after_spike \<and>
   int (length (positions after_spike)) \<le> MAX_POSITIONS default_config"
proof -
  have m: "0 \<le> MAX_POSITIONS default_config" by (simp add: default_config_def)
  from positions_bounded_and_unique[OF m, where initial = 10000 and s = after_spike and s' = short_state]
    spike_run_short spike_calls
  show ?thesis by blast
qed

text \<open>
  Claim C9, as stated, concludes that in every run from a non-negative cash balance the
  balance is non-negative after every open operation. A close can take the balance below
  zero, and the guard then turns every later open into a call that changes nothing: the
  calls of the sample run end, after an open, at -9900.
\<close>

theorem open_position_guard_counterexample:
  "0 \<le> balance (reset_state 10000) \<and>
   run_operations default_config
     [Open_call ''BTCUSDT'' SELL 1 1 spike_info, Close_call ''BTCUSDT'' 200 2 ''Stop Loss'',
      Open_call ''BTCUSDT'' SELL 200 3 spike_info]
     (reset_state 10000) = Inr after_spike \<and>
   balance after_spike = - 9900"
  using spike_calls by (simp add: reset_state_def after_spike_def)

text \<open>
  Claim C9, amended. A call of \<^const>\<open>open_position\<close> whose computed cost
  (\<open>balance * POSITION_SIZE\<close>) strictly exceeds the cash balance returns the state
  unchanged: no position, same cash. Consequently an open operation that starts from a
  non-negative cash balance leaves it non-negative.
\<close>

theorem open_position_guard:
  "(calculate_position_size cfg s > balance s \<longrightarrow>
      open_position cfg s symbol sd price ts info = Inr s) \<and>
   (0 \<le> balance s \<and> open_position cfg s symbol sd price ts info = Inr s' \<longrightarrow> 0 \<le> balance s')"
  by (auto simp: open_position_cases calculate_position_size_def split: if_splits)

theorem open_position_guard_witness:
  "open_position default_config after_spike ''BTCUSDT'' SELL 200 3 spike_info = Inr after_spike \<and>
   open_position default_config (reset_state 10000) ''BTCUSDT'' BUY 100 1 [] = Inr long_state \<and>
   0 \<le> balance long_state"
proof -
  have c: "calculate_position_size default_config after_spike > balance after_spike"
    by (simp add: calculate_position_size_def after_spike_def default_config_def)
  have o: "open_position default_config (reset_state 10000) ''BTCUSDT'' BUY 100 1 [] = Inr long_state"
    by code_simp
  have b: "0 \<le> balance (reset_state 10000)" by (simp add: reset_state_def)
  from open_position_guard[where cfg = default_config and s = after_spike and symbol = "''BTCUSDT''"
      and sd = SELL and price = 200 and ts = 3 and info = spike_info] c
  have "open_position default_config after_spike ''BTCUSDT'' SELL 200 3 spike_info = Inr after_spike"
    by blast
  moreover from open_position_guard[where cfg = default_config and s = "reset_state 10000"
      and symbol = "''BTCUSDT''" and sd = BUY and price = 100 and ts = 1 and info = "[]"
      and s' = long_state] o b
  have "0 \<le> balance long_state" by blast
  ultimately show ?thesis using o by simp
qed

subsection \<open>Metrics of an empty trade list\<close>

text \<open>
  Claim C1, as stated, asks for every field of the metrics of an empty trade list to be
  zero, \<open>final_balance\<close> included. The code reports the cash balance there: after a run
  that made no trade it is the initial balance, 10000 by default.
\<close>

theorem calculate_metrics_empty_counterexample:
  "trades_history (reset_state 10000) = [] \<and>
   calculate_metrics (reset_state 10000) =
     Inr \<lparr>total_trades = 0, profitable_trades = 0, win_rate = 0, total_pnl = 0,
          total_return = 0, average_pnl = 0, max_drawdown = 0,
          final_balance = 10000, profit_factor = Finite 0\<rparr>"
  by (simp add: calculate_metrics_def reset_state_def)

text \<open>
  Claim C1, amended. For an empty trade list \<^const>\<open>calculate_metrics\<close> does not raise and
  returns a fully populated structure in which \<open>total_trades\<close>, \<open>profitable_trades\<close>,
  \<open>win_rate\<close>, \<open>total_pnl\<close>, \<open>total_return\<close>, \<open>average_pnl\<close>, \<open>max_drawdown\<close> and
  \<open>profit_factor\<close> are zero and \<open>final_balance\<close> is the current cash balance.
\<close>

theorem calculate_metrics_empty:
  "trades_history s = [] \<Longrightarrow>
   calculate_metrics s =
     Inr \<lparr>total_trades = 0, profitable_trades = 0, win_rate = 0, total_pnl = 0,
          total_return = 0, average_pnl = 0, max_drawdown = 0,
          final_balance = balance s, profit_factor = Finite 0\<rparr>"
  by (simp add: calculate_metrics_def)

theorem calculate_metrics_empty_witness:
  "calculate_metrics \<lparr>initial_balance = 10000, balance = 0, positions = [], trades_history = []\<rparr> =
     Inr \<lparr>total_trades = 0, profitable_trades = 0, win_rate = 0, total_pnl = 0,
          total_return = 0, average_pnl = 0, max_drawdown = 0,
          final_balance = 0, profit_factor = Finite 0\<rparr>"
  using calculate_metrics_empty
    [of "\<lparr>initial_balance = 10000, balance = 0, positions = [], trades_history = []\<rparr>"]
  by simp

end
